theory Spec2Isabelle
  imports Main "HOL-Library.Sublist"
begin

section \<open>Values that cross the bridge\<close>

text \<open>
  Both sides of the bridge exchange JSON texts. A parsed JSON text is a value of
  \<open>json\<close>; the JavaScript value \<^verbatim>\<open>undefined\<close> (an absent property, a function that
  returns nothing) is \<open>None\<close> of \<open>json option\<close>. Numbers are payload only: the bridge
  tests them for truthiness and turns them into strings, nothing else. A number is
  therefore kept as the text that \<^verbatim>\<open>String\<close> gives it, which names it uniquely:
  \<open>0\<close> for zero of either sign, \<open>42\<close>, \<open>-1.5\<close>, \<open>1e+21\<close>.
\<close>

datatype json =
    JNull
  | JBool bool
  | JNum string
  | JStr string
  | JArr "json list"
  | JObj "(string \<times> json) list"

text \<open>Exceptions, by kind; \<open>Error m\<close> is \<^verbatim>\<open>new Error(m)\<close>.\<close>

datatype js_error = Error string | SyntaxError | TypeError | ReferenceError

text \<open>
  A string on the channel is represented by what \<^verbatim>\<open>JSON.parse\<close> makes of it: the
  value it denotes, or a text that does not parse.
\<close>

datatype wire = Text json | Garbage

definition JSON_parse :: "wire \<Rightarrow> js_error + json" where
  "JSON_parse w = (case w of Text v \<Rightarrow> Inr v | Garbage \<Rightarrow> Inl SyntaxError)"

text \<open>
  \<^verbatim>\<open>JSON.stringify\<close> of an object literal: a property whose value is \<^verbatim>\<open>undefined\<close>
  is left out of the text.
\<close>

definition JSON_stringify :: "(string \<times> json option) list \<Rightarrow> wire" where
  "JSON_stringify fields =
     Text (JObj (List.map_filter (\<lambda>(k, v). map_option (Pair k) v) fields))"

text \<open>
  Property read \<^verbatim>\<open>v.k\<close> on a value that is neither \<^verbatim>\<open>null\<close> nor \<^verbatim>\<open>undefined\<close>.
  None of the names the bridge reads (type, data, methods, id, error, functionName,
  args, message) is a property of a string, a number, a boolean, an array or of
  \<^verbatim>\<open>Object.prototype\<close>.
\<close>

fun field :: "json \<Rightarrow> string \<Rightarrow> json option" where
  "field (JObj kvs) k = map_of kvs k"
| "field _ k = None"

text \<open>Property read on any value: it throws on \<^verbatim>\<open>null\<close> and \<^verbatim>\<open>undefined\<close>.\<close>

fun get_prop :: "json option \<Rightarrow> string \<Rightarrow> js_error + json option" where
  "get_prop None k = Inl TypeError"
| "get_prop (Some JNull) k = Inl TypeError"
| "get_prop (Some v) k = Inr (field v k)"

text \<open>Optional chaining \<^verbatim>\<open>v?.k\<close>.\<close>

fun opt_chain :: "json option \<Rightarrow> string \<Rightarrow> json option" where
  "opt_chain None k = None"
| "opt_chain (Some JNull) k = None"
| "opt_chain (Some v) k = field v k"

fun truthy :: "json option \<Rightarrow> bool" where
  "truthy None = False"
| "truthy (Some JNull) = False"
| "truthy (Some (JBool b)) = b"
| "truthy (Some (JNum n)) = (n \<noteq> ''0'')"
| "truthy (Some (JStr s)) = (s \<noteq> [])"
| "truthy (Some (JArr xs)) = True"
| "truthy (Some (JObj kvs)) = True"

text \<open>The operator \<^verbatim>\<open>v || d\<close> with a default \<open>d\<close> that is defined.\<close>

fun js_or :: "json option \<Rightarrow> json \<Rightarrow> json" where
  "js_or None d = d"
| "js_or (Some v) d = (if truthy (Some v) then v else d)"

subsection \<open>Decimal rendering and string conversion\<close>

definition digit :: "nat \<Rightarrow> char" where
  "digit d = ''0123456789'' ! d"

fun decimal :: "nat \<Rightarrow> string" where
  "decimal n = (if n < 10 then [digit n] else decimal (n div 10) @ [digit (n mod 10)])"

declare decimal.simps [simp del]

text \<open>\<^verbatim>\<open>xs.join(sep)\<close> on an array of strings.\<close>

fun join :: "string \<Rightarrow> string list \<Rightarrow> string" where
  "join sep [] = []"
| "join sep [x] = x"
| "join sep (x # y # ys) = x @ sep @ join sep (y # ys)"

text \<open>
  The conversion of a value to a string, as \<^verbatim>\<open>String(v)\<close>, \<^verbatim>\<open>new Error(v)\<close>, string
  concatenation and a property key \<^verbatim>\<open>o[v]\<close> perform it. An array is joined with
  commas, a \<^verbatim>\<open>null\<close> element giving the empty string. An object parsed from JSON has
  no callable property of its own: with an own key \<^verbatim>\<open>toString\<close> the conversion finds
  nothing to call that yields a primitive and throws a TypeError, and without one the
  inherited \<^verbatim>\<open>toString\<close> answers.
\<close>

fun ToString :: "json \<Rightarrow> js_error + string"
  and ToString_elements :: "json list \<Rightarrow> js_error + string list" where
  "ToString JNull = Inr ''null''"
| "ToString (JBool b) = Inr (if b then ''true'' else ''false'')"
| "ToString (JNum n) = Inr n"
| "ToString (JStr s) = Inr s"
| "ToString (JArr xs) =
     (case ToString_elements xs of Inl err \<Rightarrow> Inl err | Inr ss \<Rightarrow> Inr (join '','' ss))"
| "ToString (JObj kvs) =
     (if map_of kvs ''toString'' \<noteq> None then Inl TypeError else Inr ''[object Object]'')"
| "ToString_elements [] = Inr []"
| "ToString_elements (x # xs) =
     (case (if x = JNull then Inr [] else ToString x) of
        Inl err \<Rightarrow> Inl err
      | Inr s \<Rightarrow>
          (case ToString_elements xs of Inl err \<Rightarrow> Inl err | Inr ss \<Rightarrow> Inr (s # ss)))"

fun js_String :: "json option \<Rightarrow> js_error + string" where
  "js_String None = Inr ''undefined''"
| "js_String (Some v) = ToString v"

section \<open>Bridge client\<close>

text \<open>
  The component's refs and props. \<open>webViewRef\<close> tells whether \<^verbatim>\<open>webViewRef.current\<close>
  is set; \<open>onSDKReady\<close> and \<open>onError\<close> tell whether the host passed the callback.
  A promise made by \<open>callFunction\<close> is named by its number in the session, and
  \<open>callbacks\<close> maps a correlation id to the promise whose resolve and reject it holds.
  \<open>messageId\<close> is the counter behind the ids; it is a JavaScript number, exact for
  every count a session reaches, and a natural number here.
  \<open>timers\<close> are the pending 30 second timeouts, \<open>posted\<close> the texts sent to the
  embedded page, \<open>now\<close> the clock in milliseconds, and \<open>trace\<close> every continuation
  and host callback invoked so far, with the time of the invocation. The host's
  callbacks are taken to return normally.
\<close>

datatype host_event =
    Resolved nat "json option"
  | Rejected nat string
  | SDKReady json
  | OnError js_error

record timer =
  due :: nat
  timer_id :: string
  timer_fn :: string
  timer_promise :: nat

record client =
  webViewRef :: bool
  onSDKReady :: bool
  onError :: bool
  callbacks :: "string \<rightharpoonup> nat"
  messageId :: nat
  promises :: nat
  timers :: "timer list"
  posted :: "wire list"
  now :: nat
  trace :: "(nat \<times> host_event) list"

definition client_init :: "bool \<Rightarrow> bool \<Rightarrow> client" where
  "client_init ready_cb error_cb =
     \<lparr>webViewRef = False, onSDKReady = ready_cb, onError = error_cb,
      callbacks = Map.empty, messageId = 0, promises = 0, timers = [],
      posted = [], now = 0, trace = []\<rparr>"

definition emit :: "host_event \<Rightarrow> client \<Rightarrow> client" where
  "emit e c = c\<lparr>trace := trace c @ [(now c, e)]\<rparr>"

definition msg_id :: "nat \<Rightarrow> string" where
  "msg_id n = ''msg_'' @ decimal n"

definition call_request :: "string \<Rightarrow> string \<Rightarrow> json list \<Rightarrow> wire" where
  "call_request ident functionName args =
     JSON_stringify [(''id'', Some (JStr ident)),
                     (''functionName'', Some (JStr functionName)),
                     (''args'', Some (JArr args))]"

definition callFunction :: "string \<Rightarrow> json list \<Rightarrow> client \<Rightarrow> client" where
  "callFunction functionName args c =
     (let p = promises c; c = c\<lparr>promises := p + 1\<rparr> in
      if \<not> webViewRef c then emit (Rejected p ''WebView not ready'') c
      else
        let ident = msg_id (messageId c) in
        c\<lparr>messageId := messageId c + 1,
          callbacks := (callbacks c)(ident \<mapsto> p),
          posted := posted c @ [call_request ident functionName args],
          timers := timers c @
            [\<lparr>due = now c + 30000, timer_id = ident, timer_fn = functionName,
              timer_promise = p\<rparr>]\<rparr>)"

text \<open>The body of the timeout armed by \<open>callFunction\<close>.\<close>

definition timeout_callback :: "timer \<Rightarrow> client \<Rightarrow> client" where
  "timeout_callback t c =
     (if callbacks c (timer_id t) \<noteq> None
      then emit (Rejected (timer_promise t) (''Timeout calling '' @ timer_fn t))
             (c\<lparr>callbacks := (callbacks c)(timer_id t := None)\<rparr>)
      else c)"

text \<open>
  The event loop runs the \<open>k\<close>-th pending timeout: never before its delay has passed,
  and once only.
\<close>

definition fire_timer :: "nat \<Rightarrow> client \<Rightarrow> client" where
  "fire_timer k c =
     (if k < length (timers c) \<and> due (timers c ! k) \<le> now c
      then timeout_callback (timers c ! k)
             (c\<lparr>timers := take k (timers c) @ drop (Suc k) (timers c)\<rparr>)
      else c)"

text \<open>\<^verbatim>\<open>callbacks.current.get(message.id)\<close>: the keys are strings, and no other value equals one.\<close>

fun callbacks_get :: "(string \<rightharpoonup> nat) \<Rightarrow> json option \<Rightarrow> nat option" where
  "callbacks_get cb (Some (JStr s)) = cb s"
| "callbacks_get cb _ = None"

fun callbacks_delete :: "(string \<rightharpoonup> nat) \<Rightarrow> json option \<Rightarrow> (string \<rightharpoonup> nat)" where
  "callbacks_delete cb (Some (JStr s)) = cb(s := None)"
| "callbacks_delete cb _ = cb"

text \<open>The catch block of the client's \<open>handleMessage\<close>.\<close>

definition report_error :: "js_error \<Rightarrow> client \<Rightarrow> client" where
  "report_error err c = (if onError c then emit (OnError err) c else c)"

definition handleMessage :: "wire \<Rightarrow> client \<Rightarrow> client" where
  "handleMessage data c =
     (case JSON_parse data of
        Inl err \<Rightarrow> report_error err c
      | Inr message \<Rightarrow>
          (case get_prop (Some message) ''type'' of
             Inl err \<Rightarrow> report_error err c
           | Inr ty \<Rightarrow>
               if ty = Some (JStr ''SDK_READY'') then
                 (if onSDKReady c then
                    emit (SDKReady (js_or (opt_chain (field message ''data'') ''methods'')
                                          (JArr []))) c
                  else c)
               else if truthy (field message ''id'') then
                 (case callbacks_get (callbacks c) (field message ''id'') of
                    Some p \<Rightarrow>
                      (let c = c\<lparr>callbacks := callbacks_delete (callbacks c) (field message ''id'')\<rparr> in
                       if truthy (field message ''error'')
                       then
                         (case js_String (field message ''error'') of
                            Inl err \<Rightarrow> report_error err c
                          | Inr m \<Rightarrow> emit (Rejected p m) c)
                       else emit (Resolved p (field message ''data'')) c)
                  | None \<Rightarrow> c)
               else c))"

text \<open>What can happen to the client, one event at a time: the thread runs each to its end.\<close>

datatype client_event =
    Mount bool
  | Call string "json list"
  | Message wire
  | Timer nat
  | Elapse nat

fun client_step :: "client \<Rightarrow> client_event \<Rightarrow> client" where
  "client_step c (Mount b) = c\<lparr>webViewRef := b\<rparr>"
| "client_step c (Call functionName args) = callFunction functionName args c"
| "client_step c (Message data) = handleMessage data c"
| "client_step c (Timer k) = fire_timer k c"
| "client_step c (Elapse d) = c\<lparr>now := now c + d\<rparr>"

definition client_run :: "client \<Rightarrow> client_event list \<Rightarrow> client" where
  "client_run c es = foldl client_step c es"


section \<open>Bridge server: the script injected into the embedded page\<close>

text \<open>
  The vendor object \<^verbatim>\<open>VSDK\<close>: its own enumerable properties, in the order
  \<^verbatim>\<open>Object.keys\<close> lists them, and the properties it inherits. A property holds a
  function or some other value. A vendor function is opaque: called on its arguments it
  returns a value, throws, or gives a promise that never settles.
\<close>

datatype thrown = Exception js_error | Value "json option"

datatype completion = Returns "json option" | Throws thrown | NeverSettles

datatype member = Method "json list \<Rightarrow> completion" | Data json

record vendor =
  own_props :: "(string \<times> member) list"
  inherited_props :: "(string \<times> member) list"

definition Object_keys :: "vendor \<Rightarrow> string list" where
  "Object_keys V = map fst (own_props V)"

definition vendor_get :: "vendor \<Rightarrow> string \<Rightarrow> member option" where
  "vendor_get V k =
     (case map_of (own_props V) k of
        Some m \<Rightarrow> Some m
      | None \<Rightarrow> map_of (inherited_props V) k)"

text \<open>
  The variables of the injected script, the listeners it has registered (by target),
  the pending \<^verbatim>\<open>setTimeout(checkSDK, 500)\<close> (by the time it is due), the texts posted
  to the host, the clock in milliseconds, and the times at which \<open>checkSDK\<close> ran.
\<close>

record server =
  sdkReady :: bool
  checkAttempts :: nat
  listeners :: "string list"
  check_timer :: "nat option"
  sent :: "wire list"
  clock :: nat
  polls :: "nat list"

definition maxAttempts :: nat where
  "maxAttempts = 20"

definition server_init :: server where
  "server_init =
     \<lparr>sdkReady = False, checkAttempts = 0, listeners = [], check_timer = None,
      sent = [], clock = 0, polls = []\<rparr>"

definition ready_announcement :: "string list \<Rightarrow> wire" where
  "ready_announcement keys =
     JSON_stringify [(''type'', Some (JStr ''SDK_READY'')),
                     (''data'', Some (JObj [(''methods'', JArr (map JStr keys))]))]"

definition failure_announcement :: wire where
  "failure_announcement =
     JSON_stringify [(''type'', Some (JStr ''SDK_READY'')),
                     (''error'', Some (JStr ''VSDK not found''))]"

definition setupListeners :: "server \<Rightarrow> server" where
  "setupListeners s = s\<lparr>listeners := listeners s @ [''document'', ''window'']\<rparr>"

text \<open>
  One run of \<open>checkSDK\<close>; \<open>VSDK\<close> is the vendor object as the page has it at that
  moment, \<open>None\<close> when the global is undefined or falsy.
\<close>

definition checkSDK :: "vendor option \<Rightarrow> server \<Rightarrow> server" where
  "checkSDK VSDK s =
     (let s = s\<lparr>checkAttempts := checkAttempts s + 1, polls := polls s @ [clock s]\<rparr> in
      case VSDK of
        Some V \<Rightarrow>
          setupListeners
            (s\<lparr>sdkReady := True, sent := sent s @ [ready_announcement (Object_keys V)]\<rparr>)
      | None \<Rightarrow>
          if checkAttempts s < maxAttempts
          then s\<lparr>check_timer := Some (clock s + 500)\<rparr>
          else s\<lparr>sent := sent s @ [failure_announcement]\<rparr>)"

text \<open>
  The event loop of the page, as far as discovery goes: while a timeout is pending, the
  clock reaches the time it is due and \<open>checkSDK\<close> runs. \<open>page t\<close> is the vendor
  object at time \<open>t\<close>.
\<close>

function discover :: "(nat \<Rightarrow> vendor option) \<Rightarrow> server \<Rightarrow> server" where
  "discover page s =
     (case check_timer s of
        None \<Rightarrow> s
      | Some t \<Rightarrow> discover page (checkSDK (page t) (s\<lparr>check_timer := None, clock := t\<rparr>)))"
  by pat_completeness auto
termination
proof (relation "measure (\<lambda>(page, s). case check_timer s of None \<Rightarrow> 0
                      | Some t \<Rightarrow> Suc (maxAttempts - checkAttempts s))")
  show "wf (measure (\<lambda>(page, s). case check_timer s of None \<Rightarrow> 0
                      | Some t \<Rightarrow> Suc (maxAttempts - checkAttempts s)))"
    by simp
next
  fix page :: "nat \<Rightarrow> vendor option" and s :: server and t :: nat
  assume "check_timer s = Some t"
  then show "((page, checkSDK (page t) (s\<lparr>check_timer := None, clock := t\<rparr>)), (page, s))
      \<in> measure (\<lambda>(page, s). case check_timer s of None \<Rightarrow> 0
                      | Some t \<Rightarrow> Suc (maxAttempts - checkAttempts s))"
    by (cases "page t") (auto simp: checkSDK_def Let_def setupListeners_def)
qed

declare discover.simps [simp del]

text \<open>The last line of the script: the first \<open>checkSDK\<close>, then the event loop.\<close>

definition bridge_start :: "(nat \<Rightarrow> vendor option) \<Rightarrow> server" where
  "bridge_start page = discover page (checkSDK (page 0) server_init)"

subsection \<open>Call handling\<close>

text \<open>
  One run of the asynchronous handler ends in one of three ways: it has posted a text,
  an exception has left it (its promise rejects and nothing is posted), or it waits for
  ever on the vendor's promise.
\<close>

datatype reply = Posted wire | Unhandled js_error | Pending

text \<open>\<^verbatim>\<open>error.message\<close> and \<^verbatim>\<open>String(error)\<close> on what was caught. The text an engine
  gives its own exceptions is represented by the name of the kind.\<close>

fun error_text :: "js_error \<Rightarrow> string" where
  "error_text (Error m) = m"
| "error_text SyntaxError = ''SyntaxError''"
| "error_text TypeError = ''TypeError''"
| "error_text ReferenceError = ''ReferenceError''"

fun error_name :: "js_error \<Rightarrow> string" where
  "error_name (Error m) = ''Error''"
| "error_name SyntaxError = ''SyntaxError''"
| "error_name TypeError = ''TypeError''"
| "error_name ReferenceError = ''ReferenceError''"

fun thrown_message :: "thrown \<Rightarrow> js_error + json option" where
  "thrown_message (Exception e) = Inr (Some (JStr (error_text e)))"
| "thrown_message (Value v) = get_prop v ''message''"

fun thrown_String :: "thrown \<Rightarrow> js_error + string" where
  "thrown_String (Exception e) =
     Inr (if error_text e = [] then error_name e else error_name e @ '': '' @ error_text e)"
| "thrown_String (Value v) = js_String v"

text \<open>
  The catch block of the server's \<open>handleMessage\<close>. Its object literal reads
  \<^verbatim>\<open>message.id\<close> first. The constant \<^verbatim>\<open>message\<close> of the try block is local to that
  block, and neither \<open>handleMessage\<close> nor the enclosing function declares the name, so
  the read goes to the page's global of that name: \<open>global_message\<close> is that global,
  \<open>None\<close> when the page has none, and then the read throws a ReferenceError out of
  the handler before anything is posted.
\<close>

definition catch_block :: "json option \<Rightarrow> thrown \<Rightarrow> reply" where
  "catch_block global_message error =
     (case global_message of
        None \<Rightarrow> Unhandled ReferenceError
      | Some g \<Rightarrow>
          (case get_prop (Some g) ''id'' of
             Inl err \<Rightarrow> Unhandled err
           | Inr ident \<Rightarrow>
               (case thrown_message error of
                  Inl err \<Rightarrow> Unhandled err
                | Inr m \<Rightarrow>
                    if truthy m
                    then Posted (JSON_stringify [(''id'', ident), (''error'', m)])
                    else
                      (case thrown_String error of
                         Inl err \<Rightarrow> Unhandled err
                       | Inr str \<Rightarrow>
                           Posted (JSON_stringify
                             [(''id'', ident), (''error'', Some (JStr str))])))))"

text \<open>The spread \<^verbatim>\<open>...(args || [])\<close>: an array or a string can be spread, nothing else
  that is truthy.\<close>

fun spread :: "json option \<Rightarrow> js_error + json list" where
  "spread (Some (JArr xs)) = Inr xs"
| "spread (Some (JStr s)) = (if s = [] then Inr [] else Inr (map (\<lambda>ch. JStr [ch]) s))"
| "spread v = (if truthy v then Inl TypeError else Inr [])"

text \<open>
  The global \<^verbatim>\<open>VSDK\<close> as the handler finds it: not declared at all, \<^verbatim>\<open>undefined\<close>
  or \<^verbatim>\<open>null\<close>, a falsy value that is neither (it has no enumerable property of its own,
  and the list holds what its wrapper provides), or anything else. \<open>checkSDK\<close> takes
  the last for the vendor object and every other for its absence.
\<close>

datatype vsdk_global = Undeclared | Nullish | Falsy "(string \<times> member) list" | Present vendor

fun found :: "vsdk_global \<Rightarrow> vendor option" where
  "found (Present V) = Some V"
| "found _ = None"

text \<open>
  The handler from the point where \<^verbatim>\<open>VSDK\<close> has been read and is not nullish: the
  name is converted to a property key, which can throw; the property is looked up, and
  called when it is a function.
\<close>

definition invoke :: "json option \<Rightarrow> vendor \<Rightarrow> json option \<Rightarrow> json option \<Rightarrow> json option \<Rightarrow> reply" where
  "invoke global_message V ident functionName args =
     (case js_String functionName of
        Inl err \<Rightarrow> catch_block global_message (Exception err)
      | Inr name \<Rightarrow>
          (case vendor_get V name of
             Some (Method f) \<Rightarrow>
               (case spread args of
                  Inl err \<Rightarrow> catch_block global_message (Exception err)
                | Inr xs \<Rightarrow>
                    (case f xs of
                       Returns result \<Rightarrow>
                         Posted (JSON_stringify [(''id'', ident), (''data'', result)])
                     | Throws error \<Rightarrow> catch_block global_message error
                     | NeverSettles \<Rightarrow> Pending))
           | _ \<Rightarrow>
               catch_block global_message
                 (Exception (Error (''Function '' @ name @ '' not found. Available: '' @
                    join '', '' (Object_keys V))))))"

text \<open>
  The handler. Reading \<^verbatim>\<open>VSDK[functionName]\<close> throws a ReferenceError when the global
  is not declared and a TypeError when it is \<^verbatim>\<open>undefined\<close> or \<^verbatim>\<open>null\<close>.
\<close>

definition server_handleMessage ::
    "json option \<Rightarrow> vsdk_global \<Rightarrow> server \<Rightarrow> wire \<Rightarrow> reply" where
  "server_handleMessage global_message VSDK s data =
     (case JSON_parse data of
        Inl err \<Rightarrow> catch_block global_message (Exception err)
      | Inr message \<Rightarrow>
          (case get_prop (Some message) ''id'' of
             Inl err \<Rightarrow> catch_block global_message (Exception err)
           | Inr ident \<Rightarrow>
               (let functionName = field message ''functionName'';
                    args = field message ''args'' in
                if \<not> sdkReady s
                then catch_block global_message (Exception (Error ''SDK not ready''))
                else
                  (case VSDK of
                     Undeclared \<Rightarrow> catch_block global_message (Exception ReferenceError)
                   | Nullish \<Rightarrow> catch_block global_message (Exception TypeError)
                   | Falsy ps \<Rightarrow>
                       invoke global_message \<lparr>own_props = [], inherited_props = ps\<rparr>
                         ident functionName args
                   | Present V \<Rightarrow> invoke global_message V ident functionName args))))"

section \<open>What the host and the channel observe\<close>

text \<open>How many times a continuation of promise \<open>p\<close> has been invoked.\<close>

fun settles :: "nat \<Rightarrow> host_event \<Rightarrow> bool" where
  "settles p (Resolved q v) = (q = p)"
| "settles p (Rejected q m) = (q = p)"
| "settles p (SDKReady ms) = False"
| "settles p (OnError err) = False"

definition settled :: "nat \<Rightarrow> client \<Rightarrow> nat" where
  "settled p c = length (filter (settles p) (map snd (trace c)))"


text \<open>The correlation ids of the requests sent so far, and the counter an id was made from.\<close>

definition request_id :: "wire \<Rightarrow> json option" where
  "request_id w = (case w of Text message \<Rightarrow> field message ''id'' | Garbage \<Rightarrow> None)"

definition posted_ids :: "client \<Rightarrow> json option list" where
  "posted_ids c = map request_id (posted c)"

definition digit_value :: "char \<Rightarrow> nat" where
  "digit_value ch = of_char ch - 48"

definition decimal_value :: "string \<Rightarrow> nat" where
  "decimal_value s = foldl (\<lambda>n ch. 10 * n + digit_value ch) 0 s"

definition id_counter :: "json option \<Rightarrow> nat" where
  "id_counter v = (case js_String v of Inl err \<Rightarrow> 0 | Inr s \<Rightarrow> decimal_value (drop 4 s))"

text \<open>How many times the readiness callback has run, and how many of the events are
  messages that the client takes for a Ready Announcement.\<close>

fun is_ready_call :: "host_event \<Rightarrow> bool" where
  "is_ready_call (SDKReady ms) = True"
| "is_ready_call _ = False"

definition ready_calls :: "client \<Rightarrow> nat" where
  "ready_calls c = length (filter is_ready_call (map snd (trace c)))"

definition announces_ready :: "wire \<Rightarrow> bool" where
  "announces_ready w =
     (case w of
        Text message \<Rightarrow> message \<noteq> JNull \<and> field message ''type'' = Some (JStr ''SDK_READY'')
      | Garbage \<Rightarrow> False)"

fun is_announcement :: "client_event \<Rightarrow> bool" where
  "is_announcement (Message w) = announces_ready w"
| "is_announcement _ = False"




text \<open>
  The two kinds of state of the discovery loop: still polling, with the next poll due,
  and done, with the one announcement sent.
\<close>

definition searching :: "(nat \<Rightarrow> vendor option) \<Rightarrow> server \<Rightarrow> bool" where
  "searching page s \<longleftrightarrow>
     check_timer s = Some (500 * checkAttempts s) \<and>
     0 < checkAttempts s \<and> checkAttempts s < maxAttempts \<and>
     polls s = map (\<lambda>k. 500 * k) [0..<checkAttempts s] \<and>
     sent s = [] \<and> listeners s = [] \<and> \<not> sdkReady s \<and>
     (\<forall>k<checkAttempts s. page (500 * k) = None)"

definition terminal :: "(nat \<Rightarrow> vendor option) \<Rightarrow> server \<Rightarrow> bool" where
  "terminal page s \<longleftrightarrow>
     check_timer s = None \<and>
     0 < checkAttempts s \<and> checkAttempts s \<le> maxAttempts \<and>
     polls s = map (\<lambda>k. 500 * k) [0..<checkAttempts s] \<and>
     clock s = 500 * (checkAttempts s - 1) \<and>
     (\<forall>k<checkAttempts s - 1. page (500 * k) = None) \<and>
     (if sdkReady s
      then \<exists>V. page (clock s) = Some V \<and> sent s = [ready_announcement (Object_keys V)] \<and>
             listeners s = [''document'', ''window'']
      else checkAttempts s = maxAttempts \<and> page (clock s) = None \<and>
           sent s = [failure_announcement] \<and> listeners s = [])"

section \<open>A sample session\<close>

text \<open>
  The host has mounted the component with both callbacks; the page's vendor object has the
  three functions of the example application: \<open>initialize\<close> returns nothing,
  \<open>getCards\<close> returns a profile, \<open>checkout\<close> throws.
\<close>

definition mounted :: client where
  "mounted = (client_init True True)\<lparr>webViewRef := True\<rparr>"

definition demo_vendor :: vendor where
  "demo_vendor =
     \<lparr>own_props =
        [(''initialize'', Method (\<lambda>xs. Returns None)),
         (''getCards'', Method (\<lambda>xs. Returns (Some (JObj [(''actionCode'', JStr ''SUCCESS'')])))),
         (''checkout'', Method (\<lambda>xs. Throws (Exception (Error ''Card declined''))))],
      inherited_props = []\<rparr>"

section \<open>Correlation ids\<close>


lemma digit_inj: "a < 10 \<Longrightarrow> b < 10 \<Longrightarrow> digit a = digit b \<Longrightarrow> a = b"
proof -
  assume a: "a < 10" and b: "b < 10" and e: "digit a = digit b"
  have d: "distinct ''0123456789''" by simp
  have "length ''0123456789'' = 10" by simp
  with a b e d show ?thesis
    unfolding digit_def by (metis nth_eq_iff_index_eq)
qed

lemma decimal_nonempty: "decimal n \<noteq> []" "[] \<noteq> decimal n"
  by (subst decimal.simps, simp)+

lemma decimal_small: "n < 10 \<Longrightarrow> decimal n = [digit n]"
  by (subst decimal.simps) simp

lemma decimal_big: "\<not> n < 10 \<Longrightarrow> decimal n = decimal (n div 10) @ [digit (n mod 10)]"
  by (subst decimal.simps) simp

lemma decimal_inj: "decimal m = decimal n \<Longrightarrow> m = n"
proof (induction m arbitrary: n rule: less_induct)
  case (less m)
  show ?case
  proof (cases "m < 10")
    case m: True
    show ?thesis
    proof (cases "n < 10")
      case True
      with m less.prems show ?thesis by (simp add: decimal_small digit_inj)
    next
      case False
      with m less.prems show ?thesis
        by (simp add: decimal_small decimal_big decimal_nonempty)
    qed
  next
    case m: False
    show ?thesis
    proof (cases "n < 10")
      case True
      with m less.prems show ?thesis
        by (simp add: decimal_small decimal_big decimal_nonempty)
    next
      case False
      with m less.prems have e: "decimal (m div 10) = decimal (n div 10)"
        and d: "digit (m mod 10) = digit (n mod 10)"
        by (simp_all add: decimal_big)
      from m have "m div 10 < m" by simp
      from less.IH [OF this e] have q: "m div 10 = n div 10" .
      from d have r: "m mod 10 = n mod 10" by (simp add: digit_inj)
      from q r show ?thesis by (metis div_mult_mod_eq)
    qed
  qed
qed

lemma msg_id_inj: "msg_id m = msg_id n \<Longrightarrow> m = n"
  by (simp add: msg_id_def decimal_inj)

lemma digit_value_digit: "n < 10 \<Longrightarrow> digit_value (digit n) = n"
proof -
  assume "n < 10"
  then have "n \<in> {0,1,2,3,4,5,6,7,8,9}" by auto
  then show ?thesis by (auto simp: digit_value_def digit_def)
qed

lemma decimal_value_decimal: "decimal_value (decimal n) = n"
proof (induction n rule: decimal.induct)
  case (1 n)
  show ?case
  proof (cases "n < 10")
    case True
    then show ?thesis by (simp add: decimal_small decimal_value_def digit_value_digit)
  next
    case False
    with 1 have "decimal_value (decimal (n div 10)) = n div 10" by simp
    with False show ?thesis
      by (simp add: decimal_big decimal_value_def digit_value_digit)
  qed
qed

lemma id_counter_msg_id: "id_counter (Some (JStr (msg_id k))) = k"
  by (simp add: id_counter_def msg_id_def decimal_value_decimal)

lemma request_id_call_request: "request_id (call_request i f a) = Some (JStr i)"
  by (simp add: request_id_def call_request_def JSON_stringify_def)

lemma posted_ids_step:
  "posted_ids c = map (\<lambda>k. Some (JStr (msg_id k))) [0..<messageId c] \<Longrightarrow>
   posted_ids (client_step c e) = map (\<lambda>k. Some (JStr (msg_id k))) [0..<messageId (client_step c e)]"
proof (cases e)
  case (Call f a)
  assume "posted_ids c = map (\<lambda>k. Some (JStr (msg_id k))) [0..<messageId c]"
  with Call show ?thesis
    by (simp add: posted_ids_def callFunction_def Let_def emit_def request_id_call_request)
next
  case (Message w)
  assume "posted_ids c = map (\<lambda>k. Some (JStr (msg_id k))) [0..<messageId c]"
  with Message show ?thesis
    by (simp add: posted_ids_def handleMessage_def report_error_def Let_def emit_def
        split: sum.splits option.splits)
next
  case (Timer k)
  assume "posted_ids c = map (\<lambda>k. Some (JStr (msg_id k))) [0..<messageId c]"
  with Timer show ?thesis
    by (simp add: posted_ids_def fire_timer_def timeout_callback_def emit_def)
qed (simp_all add: posted_ids_def)

lemma posted_ids_run:
  "posted_ids c = map (\<lambda>k. Some (JStr (msg_id k))) [0..<messageId c] \<Longrightarrow>
   posted_ids (client_run c es) = map (\<lambda>k. Some (JStr (msg_id k))) [0..<messageId (client_run c es)]"
  unfolding client_run_def
  by (induction es arbitrary: c) (simp_all add: posted_ids_step)


text \<open>
  C3. In one session the ids of the requests sent so far are exactly \<open>msg_0\<close>,
  \<open>msg_1\<close>, ... up to the counter: the literal prefix followed by the decimal
  rendering of the counter, pairwise distinct, and with strictly increasing counters.
\<close>

theorem correlation_ids_fresh:
  "posted_ids (client_run (client_init r e) es) =
     map (\<lambda>k. Some (JStr (''msg_'' @ decimal k)))
       [0..<messageId (client_run (client_init r e) es)] \<and>
   distinct (posted_ids (client_run (client_init r e) es)) \<and>
   sorted_wrt (<) (map id_counter (posted_ids (client_run (client_init r e) es)))"
proof -
  let ?c = "client_run (client_init r e) es"
  have "posted_ids (client_init r e) =
     map (\<lambda>k. Some (JStr (msg_id k))) [0..<messageId (client_init r e)]"
    by (simp add: posted_ids_def client_init_def)
  then have ids: "posted_ids ?c = map (\<lambda>k. Some (JStr (msg_id k))) [0..<messageId ?c]"
    by (rule posted_ids_run)
  have inj: "inj (\<lambda>k. Some (JStr (msg_id k)))"
    by (rule injI) (simp add: msg_id_inj)
  have "map id_counter (posted_ids ?c) = [0..<messageId ?c]"
    unfolding ids by (simp add: id_counter_msg_id map_idI)
  then have "sorted_wrt (<) (map id_counter (posted_ids ?c))" by simp
  moreover have "distinct (posted_ids ?c)"
    unfolding ids using inj by (simp add: distinct_map inj_on_def)
  ultimately show ?thesis using ids by (simp add: msg_id_def)
qed


section \<open>The pending-call table, the timers and the trace\<close>



lemma settled_upd [simp]:
  "settled p (c\<lparr>callbacks := cb\<rparr>) = settled p c"
  "settled p (c\<lparr>timers := ts\<rparr>) = settled p c"
  "settled p (c\<lparr>promises := n\<rparr>) = settled p c"
  "settled p (c\<lparr>webViewRef := b\<rparr>) = settled p c"
  "settled p (c\<lparr>now := t\<rparr>) = settled p c"
  by (simp_all add: settled_def)
















section \<open>Evaluating the client on concrete sessions\<close>

lemmas client_defs = client_run_def client_init_def callFunction_def Let_def emit_def
  fire_timer_def timeout_callback_def handleMessage_def report_error_def JSON_parse_def
  msg_id_def decimal_small digit_def call_request_def JSON_stringify_def



section \<open>Responses without a pending call\<close>

text \<open>
  C9. A response (an object that is not a Ready Announcement) whose id has no entry in
  the table, whether the call was resolved, timed out or never made, leaves the client
  as it was: no continuation runs, the table is unchanged, and \<open>onError\<close> is not
  called, so nothing was thrown.
\<close>

theorem unmatched_response_ignored:
  assumes "message \<noteq> JNull"
    and "field message ''type'' \<noteq> Some (JStr ''SDK_READY'')"
    and "callbacks_get (callbacks c) (field message ''id'') = None"
  shows "handleMessage (Text message) c = c"
proof -
  from assms(1) have "get_prop (Some message) ''type'' = Inr (field message ''type'')"
    by (cases message) simp_all
  with assms(2,3) show ?thesis
    by (simp add: handleMessage_def JSON_parse_def)
qed

theorem unmatched_response_ignored_witness:
  "JObj [(''id'', JStr ''msg_7''), (''data'', JBool True)] \<noteq> JNull \<and>
   field (JObj [(''id'', JStr ''msg_7''), (''data'', JBool True)]) ''type''
     \<noteq> Some (JStr ''SDK_READY'') \<and>
   callbacks_get (callbacks (callFunction ''getCards'' [] ((client_init True True)\<lparr>webViewRef := True\<rparr>)))
     (field (JObj [(''id'', JStr ''msg_7''), (''data'', JBool True)]) ''id'') = None \<and>
   handleMessage (Text (JObj [(''id'', JStr ''msg_7''), (''data'', JBool True)]))
     (callFunction ''getCards'' [] ((client_init True True)\<lparr>webViewRef := True\<rparr>))
   = callFunction ''getCards'' [] ((client_init True True)\<lparr>webViewRef := True\<rparr>)"
proof -
  let ?c = "callFunction ''getCards'' [] ((client_init True True)\<lparr>webViewRef := True\<rparr>)"
  let ?m = "JObj [(''id'', JStr ''msg_7''), (''data'', JBool True)]"
  have h1: "?m \<noteq> JNull" by simp
  have h2: "field ?m ''type'' \<noteq> Some (JStr ''SDK_READY'')" by simp
  have h3: "callbacks_get (callbacks ?c) (field ?m ''id'') = None"
    by (simp add: client_defs)
  from unmatched_response_ignored [OF h1 h2 h3] h1 h2 h3 show ?thesis by blast
qed


section \<open>The round trip of a successful call\<close>

lemma msg_id_nonempty: "msg_id n \<noteq> []"
  by (simp add: msg_id_def)

text \<open>
  C2. A call made with the channel attached sends one request; a ready server whose
  vendor object has the function, and whose function returns, posts the id with the
  result as data; and the client, while the entry of that id is still in the table,
  resolves the promise of that call with this result and removes the entry.
\<close>

theorem happy_path_round_trip:
  assumes "webViewRef c" and "sdkReady s"
    and "vendor_get V functionName = Some (Method f)"
    and "f args = Returns result"
    and "callbacks c' (msg_id (messageId c)) = Some (promises c)"
  shows "posted (callFunction functionName args c) =
           posted c @ [call_request (msg_id (messageId c)) functionName args] \<and>
         callbacks (callFunction functionName args c) (msg_id (messageId c)) = Some (promises c) \<and>
         server_handleMessage g (Present V) s (call_request (msg_id (messageId c)) functionName args) =
           Posted (JSON_stringify [(''id'', Some (JStr (msg_id (messageId c)))), (''data'', result)]) \<and>
         handleMessage
           (JSON_stringify [(''id'', Some (JStr (msg_id (messageId c)))), (''data'', result)]) c' =
           emit (Resolved (promises c) result)
             (c'\<lparr>callbacks := (callbacks c')(msg_id (messageId c) := None)\<rparr>)"
proof -
  let ?i = "msg_id (messageId c)"
  have sent: "posted (callFunction functionName args c) = posted c @ [call_request ?i functionName args]"
    and entry: "callbacks (callFunction functionName args c) ?i = Some (promises c)"
    using assms(1) by (simp_all add: callFunction_def Let_def)
  have served: "server_handleMessage g (Present V) s (call_request ?i functionName args) =
      Posted (JSON_stringify [(''id'', Some (JStr ?i)), (''data'', result)])"
    using assms(2,3,4)
    by (simp add: server_handleMessage_def invoke_def call_request_def JSON_stringify_def
        JSON_parse_def)
  have resolved: "handleMessage (JSON_stringify [(''id'', Some (JStr ?i)), (''data'', result)]) c' =
      emit (Resolved (promises c) result) (c'\<lparr>callbacks := (callbacks c')(?i := None)\<rparr>)"
    using assms(5) msg_id_nonempty [of "messageId c"]
    by (cases result) (simp_all add: handleMessage_def JSON_stringify_def JSON_parse_def)
  from sent entry served resolved show ?thesis by blast
qed


theorem happy_path_round_trip_witness:
  "webViewRef mounted \<and> sdkReady (bridge_start (\<lambda>t. Some demo_vendor)) \<and>
   vendor_get demo_vendor ''getCards'' =
     Some (Method (\<lambda>xs. Returns (Some (JObj [(''actionCode'', JStr ''SUCCESS'')])))) \<and>
   callbacks (callFunction ''getCards'' [JStr ''a@b.c''] mounted) (msg_id (messageId mounted))
     = Some (promises mounted) \<and>
   server_handleMessage None (Present demo_vendor) (bridge_start (\<lambda>t. Some demo_vendor))
       (call_request ''msg_0'' ''getCards'' [JStr ''a@b.c'']) =
     Posted (Text (JObj [(''id'', JStr ''msg_0''),
                         (''data'', JObj [(''actionCode'', JStr ''SUCCESS'')])])) \<and>
   trace (handleMessage
       (Text (JObj [(''id'', JStr ''msg_0''),
                    (''data'', JObj [(''actionCode'', JStr ''SUCCESS'')])]))
       (callFunction ''getCards'' [JStr ''a@b.c''] mounted)) =
     [(0, Resolved 0 (Some (JObj [(''actionCode'', JStr ''SUCCESS'')])))]"
proof -
  let ?f = "\<lambda>xs::json list. Returns (Some (JObj [(''actionCode'', JStr ''SUCCESS'')]))"
  let ?c' = "callFunction ''getCards'' [JStr ''a@b.c''] mounted"
  have h1: "webViewRef mounted" by (simp add: mounted_def)
  have h2: "sdkReady (bridge_start (\<lambda>t. Some demo_vendor))"
    by (simp add: bridge_start_def checkSDK_def server_init_def setupListeners_def Let_def
        discover.simps)
  have h3: "vendor_get demo_vendor ''getCards'' = Some (Method ?f)"
    by (simp add: vendor_get_def demo_vendor_def)
  have h4: "?f [JStr ''a@b.c''] = Returns (Some (JObj [(''actionCode'', JStr ''SUCCESS'')]))"
    by simp
  have h5: "callbacks ?c' (msg_id (messageId mounted)) = Some (promises mounted)"
    by (simp add: mounted_def client_defs)
  have i0: "msg_id (messageId mounted) = ''msg_0''" "promises mounted = 0"
    by (simp_all add: mounted_def client_defs)
  have tr: "trace ?c' = []" "now ?c' = 0" by (simp_all add: mounted_def client_defs)
  from happy_path_round_trip [OF h1 h2 h3 h4 h5, where g = None] h1 h2 h3 h5
  show ?thesis
    unfolding i0 by (simp add: JSON_stringify_def emit_def tr)
qed

section \<open>Timeouts\<close>

lemma name_in_message: "sublist f (m @ f)"
  using sublist_appendI [of f m "[]"] by simp


text \<open>
  C4. A call arms a timeout due 30000 ms after the call. While the entry of its id is
  still in the table (no response has come), the timeout does nothing before it is due,
  and when due it removes that entry only and rejects that call's promise only, with
  the message \<open>Timeout calling\<close> followed by the function name: the word comes
  capitalised. Every other entry, timer and promise is left as it was.
\<close>


theorem timeout_rejection:
  "(webViewRef c \<longrightarrow>
      timers (callFunction functionName args c) =
        timers c @ [\<lparr>due = now c + 30000, timer_id = msg_id (messageId c),
                     timer_fn = functionName, timer_promise = promises c\<rparr>]) \<and>
   (k < length (timers c') \<and> callbacks c' (timer_id (timers c' ! k)) \<noteq> None \<longrightarrow>
      (now c' < due (timers c' ! k) \<longrightarrow> fire_timer k c' = c') \<and>
      (due (timers c' ! k) \<le> now c' \<longrightarrow>
         fire_timer k c' =
           c'\<lparr>timers := take k (timers c') @ drop (Suc k) (timers c'),
              callbacks := (callbacks c')(timer_id (timers c' ! k) := None),
              trace := trace c' @
                [(now c', Rejected (timer_promise (timers c' ! k))
                            (''Timeout calling '' @ timer_fn (timers c' ! k)))]\<rparr> \<and>
         prefix ''Timeout'' (''Timeout calling '' @ timer_fn (timers c' ! k)) \<and>
         sublist (timer_fn (timers c' ! k)) (''Timeout calling '' @ timer_fn (timers c' ! k))))"
proof -
  have "sublist (timer_fn (timers c' ! k)) (''Timeout calling '' @ timer_fn (timers c' ! k))"
    by (rule name_in_message)
  moreover have "prefix ''Timeout'' (''Timeout calling '' @ timer_fn (timers c' ! k))"
    by simp
  ultimately show ?thesis
    by (auto simp: callFunction_def Let_def fire_timer_def timeout_callback_def emit_def
        simp del: append.simps)
qed

theorem timeout_rejection_witness:
  "webViewRef mounted \<and>
   timers (callFunction ''getCards'' [] mounted) =
     [\<lparr>due = 30000, timer_id = ''msg_0'', timer_fn = ''getCards'', timer_promise = 0\<rparr>] \<and>
   fire_timer 0 (client_run mounted [Call ''getCards'' [], Call ''checkout'' [], Elapse 29999]) =
     client_run mounted [Call ''getCards'' [], Call ''checkout'' [], Elapse 29999] \<and>
   trace (fire_timer 0
       (client_run mounted [Call ''getCards'' [], Call ''checkout'' [], Elapse 30000])) =
     [(30000, Rejected 0 ''Timeout calling getCards'')] \<and>
   callbacks (fire_timer 0
       (client_run mounted [Call ''getCards'' [], Call ''checkout'' [], Elapse 30000])) ''msg_1''
     = Some 1"
proof -
  let ?early = "client_run mounted [Call ''getCards'' [], Call ''checkout'' [], Elapse 29999]"
  let ?late = "client_run mounted [Call ''getCards'' [], Call ''checkout'' [], Elapse 30000]"
  have h1: "webViewRef mounted" by (simp add: mounted_def)
  have e: "0 < length (timers ?early) \<and> callbacks ?early (timer_id (timers ?early ! 0)) \<noteq> None"
    "now ?early < due (timers ?early ! 0)"
    by (simp_all add: mounted_def client_defs)
  have l: "0 < length (timers ?late) \<and> callbacks ?late (timer_id (timers ?late ! 0)) \<noteq> None"
    "due (timers ?late ! 0) \<le> now ?late"
    by (simp_all add: mounted_def client_defs)
  from timeout_rejection [of mounted "''getCards''" "[]" 0 ?early] h1 e
  have a: "timers (callFunction ''getCards'' [] mounted) =
        timers mounted @ [\<lparr>due = now mounted + 30000, timer_id = msg_id (messageId mounted),
                     timer_fn = ''getCards'', timer_promise = promises mounted\<rparr>]"
    and b: "fire_timer 0 ?early = ?early" by blast+
  from timeout_rejection [of mounted "''getCards''" "[]" 0 ?late] l
  have c: "fire_timer 0 ?late =
           ?late\<lparr>timers := take 0 (timers ?late) @ drop (Suc 0) (timers ?late),
              callbacks := (callbacks ?late)(timer_id (timers ?late ! 0) := None),
              trace := trace ?late @
                [(now ?late, Rejected (timer_promise (timers ?late ! 0))
                            (''Timeout calling '' @ timer_fn (timers ?late ! 0)))]\<rparr>" by blast
  have a': "timers (callFunction ''getCards'' [] mounted) =
     [\<lparr>due = 30000, timer_id = ''msg_0'', timer_fn = ''getCards'', timer_promise = 0\<rparr>]"
    unfolding a by (simp add: mounted_def client_defs)
  have c1: "trace (fire_timer 0 ?late) = [(30000, Rejected 0 ''Timeout calling getCards'')]"
    unfolding c by (simp add: mounted_def client_defs)
  have c2: "callbacks (fire_timer 0 ?late) ''msg_1'' = Some 1"
    unfolding c by (simp add: mounted_def client_defs)
  from h1 a' b c1 c2 show ?thesis by blast
qed


section \<open>Readiness\<close>

lemma ready_calls_emit:
  "ready_calls (emit e c) = ready_calls c + (if is_ready_call e then 1 else 0)"
  by (simp add: ready_calls_def emit_def)

lemma ready_calls_upd [simp]:
  "ready_calls (c\<lparr>callbacks := cb\<rparr>) = ready_calls c"
  "ready_calls (c\<lparr>timers := ts\<rparr>) = ready_calls c"
  "ready_calls (c\<lparr>promises := n\<rparr>) = ready_calls c"
  "ready_calls (c\<lparr>messageId := n\<rparr>) = ready_calls c"
  "ready_calls (c\<lparr>posted := ws\<rparr>) = ready_calls c"
  "ready_calls (c\<lparr>webViewRef := b\<rparr>) = ready_calls c"
  "ready_calls (c\<lparr>now := t\<rparr>) = ready_calls c"
  by (simp_all add: ready_calls_def)

lemma ready_calls_handleMessage:
  "ready_calls (handleMessage w c) =
     ready_calls c + (if onSDKReady c \<and> announces_ready w then 1 else 0)"
proof (cases w)
  case Garbage
  then show ?thesis
    by (simp add: handleMessage_def JSON_parse_def report_error_def announces_ready_def
        ready_calls_emit)
next
  case (Text message)
  show ?thesis
  proof (cases "message = JNull")
    case True
    with Text show ?thesis
      by (simp add: handleMessage_def JSON_parse_def report_error_def announces_ready_def
          ready_calls_emit)
  next
    case False
    then have "get_prop (Some message) ''type'' = Inr (field message ''type'')"
      by (cases message) simp_all
    with Text False show ?thesis
      by (simp add: handleMessage_def JSON_parse_def announces_ready_def ready_calls_emit
          report_error_def Let_def split: option.splits sum.splits)
  qed
qed

lemma ready_calls_step:
  "ready_calls (client_step c e) =
     ready_calls c + (if onSDKReady c \<and> is_announcement e then 1 else 0)"
proof (cases e)
  case (Call f a)
  then show ?thesis by (simp add: callFunction_def Let_def ready_calls_emit)
next
  case (Message w)
  then show ?thesis by (simp add: ready_calls_handleMessage)
next
  case (Timer k)
  then show ?thesis
    by (simp add: fire_timer_def timeout_callback_def ready_calls_emit)
qed simp_all

lemma onSDKReady_step: "onSDKReady (client_step c e) = onSDKReady c"
  by (cases e)
    (simp_all add: callFunction_def Let_def emit_def fire_timer_def timeout_callback_def
      handleMessage_def report_error_def split: sum.splits option.splits)

text \<open>
  C7, as the code has it. The client keeps no record of having signalled readiness:
  \<open>onSDKReady\<close>, when the host passed one, runs once for every message received
  whose type is \<open>SDK_READY\<close>.
\<close>

theorem ready_once_per_announcement:
  "ready_calls (client_run c es) =
     ready_calls c + (if onSDKReady c then length (filter is_announcement es) else 0)"
  unfolding client_run_def
proof (induction es arbitrary: c)
  case Nil
  show ?case by simp
next
  case (Cons e es)
  show ?case
    by (simp add: Cons.IH ready_calls_step onSDKReady_step)
qed

text \<open>Two announcements on the channel: the callback runs twice.\<close>

theorem ready_twice_counterexample:
  "\<not> ready_calls (client_run mounted
        [Message (ready_announcement [''initialize'', ''getCards'', ''checkout'']),
         Message (ready_announcement [''initialize'', ''getCards'', ''checkout''])]) \<le> 1"
  by (simp add: mounted_def client_defs ready_calls_def ready_announcement_def
     )

section \<open>Discovery\<close>

lemma discover_idle: "check_timer s = None \<Longrightarrow> discover page s = s"
  by (simp add: discover.simps)

lemma discover_due:
  "check_timer s = Some t \<Longrightarrow>
   discover page s = discover page (checkSDK (page t) (s\<lparr>check_timer := None, clock := t\<rparr>))"
  by (subst discover.simps) simp

lemma checkSDK_first:
  "terminal page (checkSDK (page 0) server_init) \<or> searching page (checkSDK (page 0) server_init)"
  by (cases "page 0")
    (auto simp: checkSDK_def Let_def server_init_def setupListeners_def maxAttempts_def
      terminal_def searching_def)

lemma checkSDK_next:
  assumes "searching page s"
  shows "terminal page (checkSDK (page (500 * checkAttempts s))
            (s\<lparr>check_timer := None, clock := 500 * checkAttempts s\<rparr>)) \<or>
         searching page (checkSDK (page (500 * checkAttempts s))
            (s\<lparr>check_timer := None, clock := 500 * checkAttempts s\<rparr>))"
proof (cases "page (500 * checkAttempts s)")
  case (Some V)
  with assms have "terminal page (checkSDK (page (500 * checkAttempts s))
            (s\<lparr>check_timer := None, clock := 500 * checkAttempts s\<rparr>))"
    by (auto simp: checkSDK_def Let_def setupListeners_def terminal_def searching_def)
  then show ?thesis ..
next
  case None
  have ext: "\<forall>k<Suc (checkAttempts s). page (500 * k) = None"
    using assms None by (auto simp: searching_def less_Suc_eq)
  show ?thesis
  proof (cases "Suc (checkAttempts s) < maxAttempts")
    case True
    with assms None ext have "searching page (checkSDK (page (500 * checkAttempts s))
            (s\<lparr>check_timer := None, clock := 500 * checkAttempts s\<rparr>))"
      by (simp add: checkSDK_def Let_def searching_def)
    then show ?thesis ..
  next
    case False
    with assms have m: "maxAttempts = Suc (checkAttempts s)" by (simp add: searching_def)
    from assms None ext have "terminal page (checkSDK (page (500 * checkAttempts s))
            (s\<lparr>check_timer := None, clock := 500 * checkAttempts s\<rparr>))"
      by (simp add: checkSDK_def Let_def terminal_def searching_def m)
    then show ?thesis ..
  qed
qed

lemma discover_terminal: "searching page s \<Longrightarrow> terminal page (discover page s)"
proof (induction page s rule: discover.induct)
  case (1 page s)
  let ?t = "500 * checkAttempts s"
  let ?s' = "checkSDK (page ?t) (s\<lparr>check_timer := None, clock := ?t\<rparr>)"
  from "1.prems" have due: "check_timer s = Some ?t" by (simp add: searching_def)
  from checkSDK_next [OF "1.prems"] have "terminal page (discover page ?s')"
  proof
    assume t: "terminal page ?s'"
    then have "check_timer ?s' = None" unfolding terminal_def by blast
    then have "discover page ?s' = ?s'" by (rule discover_idle)
    with t show ?thesis by (simp only:)
  next
    assume "searching page ?s'"
    with due show ?thesis by (rule "1.IH")
  qed
  then show ?case by (simp only: discover_due [OF due])
qed

lemma bridge_start_terminal: "terminal page (bridge_start page)"
  unfolding bridge_start_def
  using checkSDK_first [of page]
proof
  assume t: "terminal page (checkSDK (page 0) server_init)"
  then have "check_timer (checkSDK (page 0) server_init) = None"
    unfolding terminal_def by blast
  then have "discover page (checkSDK (page 0) server_init) = checkSDK (page 0) server_init"
    by (rule discover_idle)
  with t show "terminal page (discover page (checkSDK (page 0) server_init))"
    by (simp only:)
next
  assume "searching page (checkSDK (page 0) server_init)"
  then show "terminal page (discover page (checkSDK (page 0) server_init))"
    by (rule discover_terminal)
qed


text \<open>The two runs of discovery the host can tell least apart.\<close>

lemma never_found:
  assumes "\<forall>k<20. page (500 * k) = None"
  shows "bridge_start page =
     \<lparr>sdkReady = False, checkAttempts = 20, listeners = [], check_timer = None,
      sent = [failure_announcement], clock = 9500, polls = map (\<lambda>k. 500 * k) [0..<20]\<rparr>"
proof -
  let ?f = "bridge_start page"
  have t: "terminal page ?f" by (rule bridge_start_terminal)
  then have a: "0 < checkAttempts ?f" "checkAttempts ?f \<le> 20"
    and c: "clock ?f = 500 * (checkAttempts ?f - 1)"
    unfolding terminal_def maxAttempts_def by blast+
  have "\<not> sdkReady ?f"
  proof
    assume "sdkReady ?f"
    with t obtain V where "page (clock ?f) = Some V" unfolding terminal_def by auto
    moreover from a have "checkAttempts ?f - 1 < 20" by simp
    ultimately show False using assms c by simp
  qed
  with t have "checkAttempts ?f = 20" "sent ?f = [failure_announcement]" "listeners ?f = []"
    "check_timer ?f = None" "polls ?f = map (\<lambda>k. 500 * k) [0..<checkAttempts ?f]"
    "\<not> sdkReady ?f"
    unfolding terminal_def maxAttempts_def by simp_all
  with c show ?thesis by (cases ?f) (simp del: upt_rec_numeral)
qed

lemma found_at_once:
  assumes "page 0 = Some V"
  shows "bridge_start page =
     \<lparr>sdkReady = True, checkAttempts = 1, listeners = [''document'', ''window''],
      check_timer = None, sent = [ready_announcement (Object_keys V)], clock = 0, polls = [0]\<rparr>"
  using assms
  by (simp add: bridge_start_def checkSDK_def Let_def server_init_def setupListeners_def
      discover_idle)

text \<open>
  C8. Whatever the page does, discovery ends with no poll pending, after at least one and
  at most 20 polls, the polls 500 ms apart from time 0, and with exactly one announcement
  sent. If the vendor object is absent at each of the 20 polls, the end state is the
  failed one: 20 polls, the last at 9500 ms, the failure announcement as the only text
  sent, no listener registered, the script's \<open>sdkReady\<close> still false.
\<close>


theorem discovery_bound:
  "check_timer (bridge_start page) = None \<and>
   0 < checkAttempts (bridge_start page) \<and> checkAttempts (bridge_start page) \<le> 20 \<and>
   polls (bridge_start page) = map (\<lambda>k. 500 * k) [0..<checkAttempts (bridge_start page)] \<and>
   length (sent (bridge_start page)) = 1 \<and>
   ((\<forall>k<20. page (500 * k) = None) \<longrightarrow>
      bridge_start page =
        \<lparr>sdkReady = False, checkAttempts = 20, listeners = [], check_timer = None,
         sent = [failure_announcement], clock = 9500,
         polls = map (\<lambda>k. 500 * k) [0..<20]\<rparr>)"
proof -
  let ?f = "bridge_start page"
  have t: "terminal page ?f" by (rule bridge_start_terminal)
  then have "check_timer ?f = None" "0 < checkAttempts ?f" "checkAttempts ?f \<le> 20"
    "polls ?f = map (\<lambda>k. 500 * k) [0..<checkAttempts ?f]"
    unfolding terminal_def maxAttempts_def by blast+
  moreover from t have "length (sent ?f) = 1"
    unfolding terminal_def by (cases "sdkReady ?f") auto
  ultimately show ?thesis using never_found [of page] by blast
qed

theorem discovery_bound_witness:
  "bridge_start (\<lambda>t. None) =
     \<lparr>sdkReady = False, checkAttempts = 20, listeners = [], check_timer = None,
      sent = [failure_announcement], clock = 9500,
      polls = [0, 500, 1000, 1500, 2000, 2500, 3000, 3500, 4000, 4500, 5000, 5500, 6000,
               6500, 7000, 7500, 8000, 8500, 9000, 9500]\<rparr>"
proof -
  have h: "\<forall>k<20. (\<lambda>t. None :: vendor option) (500 * k) = None" by simp
  have "map (\<lambda>k. 500 * k) [0..<20] =
      [0, 500, 1000, 1500, 2000, 2500, 3000, 3500, 4000, 4500, 5000, 5500, 6000,
               6500, 7000, 7500, 8000, 8500, 9000, 9500 :: nat]"
    by code_simp
  with discovery_bound [of "\<lambda>t. None"] h show ?thesis by simp
qed

section \<open>A failed discovery at the public interface\<close>

text \<open>
  C10. When the vendor object never appears the server sends the failure announcement,
  which has a type and an error and no data. The client answers it with
  \<open>onSDKReady\<close> on the empty list, if the host passed that callback, and does
  nothing else: the error string is dropped and \<open>onError\<close> is not called. A vendor
  object with no enumerable property of its own, found at the first poll, is announced
  with an empty method list, and the client answers that announcement in the same way.
\<close>


theorem discovery_failure_looks_like_no_methods:
  "sent (bridge_start (\<lambda>t. None)) = [failure_announcement] \<and>
   failure_announcement =
     Text (JObj [(''type'', JStr ''SDK_READY''), (''error'', JStr ''VSDK not found'')]) \<and>
   handleMessage failure_announcement c =
     (if onSDKReady c then emit (SDKReady (JArr [])) c else c) \<and>
   sent (bridge_start (\<lambda>t. Some \<lparr>own_props = [], inherited_props = inh\<rparr>)) =
     [ready_announcement []] \<and>
   handleMessage (ready_announcement []) c = handleMessage failure_announcement c"
proof -
  have "sent (bridge_start (\<lambda>t. None)) = [failure_announcement]"
    by (simp add: never_found del: upt_rec_numeral)
  moreover have "failure_announcement =
     Text (JObj [(''type'', JStr ''SDK_READY''), (''error'', JStr ''VSDK not found'')])"
    by (simp add: failure_announcement_def JSON_stringify_def)
  moreover have f: "handleMessage failure_announcement c =
     (if onSDKReady c then emit (SDKReady (JArr [])) c else c)"
    by (simp add: failure_announcement_def JSON_stringify_def
        handleMessage_def JSON_parse_def)
  moreover have "sent (bridge_start (\<lambda>t. Some \<lparr>own_props = [], inherited_props = inh\<rparr>)) =
     [ready_announcement []]"
    by (simp add: found_at_once Object_keys_def)
  moreover have "handleMessage (ready_announcement []) c =
     (if onSDKReady c then emit (SDKReady (JArr [])) c else c)"
    by (simp add: ready_announcement_def JSON_stringify_def
        handleMessage_def JSON_parse_def)
  ultimately show ?thesis by simp
qed

section \<open>Errors on the server\<close>

lemma ready_demo:
  "sdkReady (bridge_start (\<lambda>t. Some demo_vendor))"
  by (simp add: found_at_once)

text \<open>
  C5, on the sample session. The request names a function the vendor object does not
  have. The handler throws the error with the message that lists the three names, and
  its catch block then fails on \<open>message.id\<close>: with no page global of that name
  nothing is posted, and the handler ends with a ReferenceError; with such a global the
  text posted carries the global's id, not the request's. With no response, the host's
  promise is rejected by the timeout, 30 seconds later, with the timeout message.
\<close>


theorem function_not_found_unanswered:
  "server_handleMessage None (Present demo_vendor) (bridge_start (\<lambda>t. Some demo_vendor))
     (call_request ''msg_0'' ''doesNotExist'' []) = Unhandled ReferenceError \<and>
   server_handleMessage (Some (JObj [(''id'', JStr ''other'')])) (Present demo_vendor)
     (bridge_start (\<lambda>t. Some demo_vendor))
     (call_request ''msg_0'' ''doesNotExist'' []) =
     Posted (Text (JObj [(''id'', JStr ''other''),
       (''error'', JStr ''Function doesNotExist not found. Available: initialize, getCards, checkout'')])) \<and>
   trace (client_run mounted [Call ''doesNotExist'' [], Elapse 30000, Timer 0]) =
     [(30000, Rejected 0 ''Timeout calling doesNotExist'')]"
  using ready_demo
  by (simp add: server_handleMessage_def invoke_def catch_block_def vendor_get_def
      demo_vendor_def Object_keys_def mounted_def client_defs)

text \<open>
  C6, on the sample session. The vendor function \<open>checkout\<close> throws an error with
  the message \<open>Card declined\<close>. The catch block fails in the same way: nothing is
  posted when the page has no global named \<open>message\<close>, the id of that global is
  posted otherwise, and the host's promise is rejected by the timeout.
\<close>


theorem vendor_exception_unanswered:
  "server_handleMessage None (Present demo_vendor) (bridge_start (\<lambda>t. Some demo_vendor))
     (call_request ''msg_0'' ''checkout'' [JObj [(''srcDigitalCardId'', JStr ''c1'')]]) =
     Unhandled ReferenceError \<and>
   server_handleMessage (Some (JObj [(''id'', JStr ''other'')])) (Present demo_vendor)
     (bridge_start (\<lambda>t. Some demo_vendor))
     (call_request ''msg_0'' ''checkout'' [JObj [(''srcDigitalCardId'', JStr ''c1'')]]) =
     Posted (Text (JObj [(''id'', JStr ''other''), (''error'', JStr ''Card declined'')])) \<and>
   trace (client_run mounted
      [Call ''checkout'' [JObj [(''srcDigitalCardId'', JStr ''c1'')]], Elapse 30000, Timer 0]) =
     [(30000, Rejected 0 ''Timeout calling checkout'')]"
  using ready_demo
  by (simp add: server_handleMessage_def invoke_def catch_block_def vendor_get_def
      demo_vendor_def Object_keys_def mounted_def client_defs)

end
